theory Spec2Isabelle
  imports Main "HOL-Library.Word"
begin

section \<open>The embedded-interpreter launchers\<close>

text \<open>
  The two source files, \<^verbatim>\<open>angelos_main.c\<close> and \<^verbatim>\<open>logo_main.c\<close>, each hold one function,
  \<^verbatim>\<open>main\<close>, whose body is a straight line of four calls into code that lives elsewhere: three
  into the interpreter runtime and one into the application's entry point. Nothing is tested,
  nothing is assigned, and the closing brace of \<^verbatim>\<open>main\<close> is reached without a
  \<^verbatim>\<open>return\<close> statement.

  The model threads the list of calls made so far through the four callees, oldest call
  first. What the callees hand back to the launcher is not decided by the launcher, so it is
  a parameter of the model, and so is whether \<^verbatim>\<open>Py_Initialize\<close> returns at all: the
  interpreter ends the process inside that call when it cannot be brought up. The other three
  callees return to the launcher. The line that calls \<^verbatim>\<open>start\<close> carries no terminating
  semicolon in either file; the model takes it as the call statement that the layout shows.
\<close>

subsection \<open>Data\<close>

type_synonym c_int = "32 word"

text \<open>
  A call of the launcher, as an observer of the process sees it. The registration call keeps
  its two arguments: the module name and the symbol of the initializer passed with it.
\<close>

datatype event =
    is_AppendInittab: AppendInittab (registered_name: string) (registered_init: string)
  | is_Initialize: Initialize
  | is_start: Start
  | is_Finalize: Finalize

type_synonym trace = "event list"

text \<open>
  How a call of \<^verbatim>\<open>Py_Initialize\<close> ends. The function has no return value by which it could
  report a failure: either it returns, with the interpreter up, or the initialization fails,
  which is fatal, and the process ends inside the call with the status given (the spec's
  initialization error: fatal, a non-zero exit status, nothing to tear down).
\<close>

datatype init_outcome = Init_returns | Init_fatal c_int

text \<open>
  What the callees do. \<^verbatim>\<open>PyImport_AppendInittab\<close> returns an \<^verbatim>\<open>int\<close>, 0 when the entry was
  added and -1 when the table could not be extended. \<^verbatim>\<open>Py_Initialize\<close> returns or ends the
  process. The return type of \<^verbatim>\<open>start\<close> is declared in a header that is not part of the
  slice, so it is the type parameter \<open>'r\<close>; the value is the one \<^verbatim>\<open>start\<close> returns if it is
  called. \<^verbatim>\<open>Py_Finalize\<close> returns nothing.
\<close>

record 'r runtime =
  inittab_status :: c_int
  initialization :: init_outcome
  start_value :: 'r

text \<open>
  Modelled from the spec: the result of the start hook, whose declaring headers
  \<^verbatim>\<open>angelos_entrypoint.h\<close> and \<^verbatim>\<open>logo_entrypoint.h\<close> are missing. The spec tells apart a normal
  return and a failure that the hook reports to its caller. A C callee cannot unwind through
  \<^verbatim>\<open>main\<close>, so an error raised inside the embedded application reaches the launcher, if at
  all, as such a reported failure.
\<close>

datatype hook_result = Returned_normally | Reported_failure

subsection \<open>The four callees\<close>

definition PyImport_AppendInittab ::
  "'r runtime \<Rightarrow> string \<Rightarrow> string \<Rightarrow> trace \<Rightarrow> c_int \<times> trace" where
  "PyImport_AppendInittab rt name init tr = (inittab_status rt, tr @ [AppendInittab name init])"

text \<open>
  The call is made, and recorded, whether or not it returns; the outcome tells the caller's
  model which of the two happened.
\<close>

definition Py_Initialize :: "'r runtime \<Rightarrow> trace \<Rightarrow> init_outcome \<times> trace" where
  "Py_Initialize rt tr = (initialization rt, tr @ [Initialize])"

definition start :: "'r runtime \<Rightarrow> trace \<Rightarrow> 'r \<times> trace" where
  "start rt tr = (start_value rt, tr @ [Start])"

definition Py_Finalize :: "trace \<Rightarrow> trace" where
  "Py_Finalize tr = tr @ [Finalize]"

subsection \<open>The two launchers\<close>

text \<open>
  \<^verbatim>\<open>main\<close> of \<^verbatim>\<open>angelos_main.c\<close>. The values returned by the registration call and by
  \<^verbatim>\<open>start\<close> are dropped, as in the source. When \<^verbatim>\<open>Py_Initialize\<close> ends the process, the
  statements after it are never reached and the status is the one the process ended with.
  Otherwise control reaches the closing brace of \<^verbatim>\<open>main\<close>, which since C99 returns 0 to the
  host environment. The result is the exit status and the calls made.
\<close>

definition angelos_main :: "'r runtime \<Rightarrow> c_int \<Rightarrow> string list \<Rightarrow> c_int \<times> trace" where
  "angelos_main rt argc argv =
    (let (_, t1) = PyImport_AppendInittab rt ''angelos'' ''PyInit_angelos'' [];
         (outcome, t2) = Py_Initialize rt t1
     in case outcome of
          Init_fatal status \<Rightarrow> (status, t2)
        | Init_returns \<Rightarrow>
            (let (_, t3) = start rt t2;
                 t4 = Py_Finalize t3
             in (0, t4)))"

text \<open>
  \<^verbatim>\<open>main\<close> of \<^verbatim>\<open>logo_main.c\<close>. The registration call names the module \<^verbatim>\<open>"logo"\<close> and passes
  \<^verbatim>\<open>PyInit_angelos\<close>, as the source has it.
\<close>

definition logo_main :: "'r runtime \<Rightarrow> c_int \<Rightarrow> string list \<Rightarrow> c_int \<times> trace" where
  "logo_main rt argc argv =
    (let (_, t1) = PyImport_AppendInittab rt ''logo'' ''PyInit_angelos'' [];
         (outcome, t2) = Py_Initialize rt t1
     in case outcome of
          Init_fatal status \<Rightarrow> (status, t2)
        | Init_returns \<Rightarrow>
            (let (_, t3) = start rt t2;
                 t4 = Py_Finalize t3
             in (0, t4)))"

text \<open>Either executable may be the one that runs: the runs of both, side by side.\<close>

definition both_launchers :: "'r runtime \<Rightarrow> c_int \<Rightarrow> string list \<Rightarrow> (c_int \<times> trace) list" where
  "both_launchers rt argc argv = [angelos_main rt argc argv, logo_main rt argc argv]"

definition exit_status :: "c_int \<times> trace \<Rightarrow> c_int" where
  "exit_status r = fst r"

definition calls :: "c_int \<times> trace \<Rightarrow> trace" where
  "calls r = snd r"

subsection \<open>Properties of traces\<close>

text \<open>The indices of a trace at which a call of a given kind stands, in increasing order.\<close>

definition positions :: "(event \<Rightarrow> bool) \<Rightarrow> trace \<Rightarrow> nat list" where
  "positions P tr = filter (\<lambda>i. P (tr ! i)) [0..<length tr]"

text \<open>Every call of kind \<open>P\<close> stands before every call of kind \<open>Q\<close>.\<close>

definition all_before :: "(event \<Rightarrow> bool) \<Rightarrow> (event \<Rightarrow> bool) \<Rightarrow> trace \<Rightarrow> bool" where
  "all_before P Q tr = list_all (\<lambda>i. list_all (\<lambda>j. i < j) (positions Q tr)) (positions P tr)"

text \<open>
  No initialization is called while the runtime is still up from an earlier one: the flag
  tells whether an initialization is pending its finalization.
\<close>

fun no_reinit :: "bool \<Rightarrow> trace \<Rightarrow> bool" where
  "no_reinit up [] = True"
| "no_reinit up (Initialize # es) = (\<not> up \<and> no_reinit True es)"
| "no_reinit up (Finalize # es) = no_reinit False es"
| "no_reinit up (AppendInittab n i # es) = no_reinit up es"
| "no_reinit up (Start # es) = no_reinit up es"

subsection \<open>What the spec asks of a launcher\<close>

text \<open>
  The spec's generic bootstrap, in its own words: register the embedded module under the
  module name, initialize the runtime, invoke the start hook once, finalize the runtime;
  an initialization failure is fatal, with no finalization. It is used only to compare the
  two source files with one another.
\<close>

definition spec_bootstrap :: "string \<Rightarrow> string \<Rightarrow> 'r runtime \<Rightarrow> c_int \<times> trace" where
  "spec_bootstrap name init rt =
     (case initialization rt of
        Init_fatal status \<Rightarrow> (status, [AppendInittab name init, Initialize])
      | Init_returns \<Rightarrow> (0, [AppendInittab name init, Initialize, Start, Finalize]))"

text \<open>
  The initializer that belongs to a module: the interpreter's convention names the
  initializer of module \<open>m\<close> \<^verbatim>\<open>PyInit_\<close>\<open>m\<close>.
\<close>

definition spec_own_initializer :: "string \<Rightarrow> string" where
  "spec_own_initializer name = ''PyInit_'' @ name"

section \<open>Results\<close>

lemma angelos_main_run:
  "angelos_main rt argc argv =
     (case initialization rt of
        Init_fatal status \<Rightarrow> (status, [AppendInittab ''angelos'' ''PyInit_angelos'', Initialize])
      | Init_returns \<Rightarrow>
          (0, [AppendInittab ''angelos'' ''PyInit_angelos'', Initialize, Start, Finalize]))"
  by (simp add: angelos_main_def PyImport_AppendInittab_def Py_Initialize_def start_def
      Py_Finalize_def split: init_outcome.split)

lemma logo_main_run:
  "logo_main rt argc argv =
     (case initialization rt of
        Init_fatal status \<Rightarrow> (status, [AppendInittab ''logo'' ''PyInit_angelos'', Initialize])
      | Init_returns \<Rightarrow>
          (0, [AppendInittab ''logo'' ''PyInit_angelos'', Initialize, Start, Finalize]))"
  by (simp add: logo_main_def PyImport_AppendInittab_def Py_Initialize_def start_def
      Py_Finalize_def split: init_outcome.split)

lemma positions_Nil: "positions P [] = []"
  by (simp add: positions_def)

lemma positions_Cons:
  "positions P (x # xs) = (if P x then [0] else []) @ map Suc (positions P xs)"
proof -
  have "[0..<Suc (length xs)] = 0 # map Suc [0..<length xs]"
    by (simp only: map_Suc_upt upt_conv_Cons zero_less_Suc)
  then show ?thesis
    by (simp add: positions_def filter_map comp_def del: upt_Suc)
qed

lemmas run_simps =
  both_launchers_def angelos_main_run logo_main_run calls_def exit_status_def
  positions_Nil positions_Cons all_before_def

lemma launchers_same_shape:
  "angelos_main rt argc argv = spec_bootstrap ''angelos'' ''PyInit_angelos'' rt \<and>
   logo_main rt argc argv = spec_bootstrap ''logo'' ''PyInit_angelos'' rt"
  by (simp add: angelos_main_run logo_main_run spec_bootstrap_def)

lemma start_not_called_when_initialization_is_fatal:
  "initialization rt = Init_fatal status \<Longrightarrow>
   list_all (\<lambda>r. positions is_start (calls r) = [] \<and> positions is_Finalize (calls r) = [] \<and>
                 exit_status r = status)
     (both_launchers rt argc argv)"
  by (simp add: run_simps)

subsection \<open>The registered pair\<close>

text \<open>
  C1. The two files are alike line by line and differ in the module name given to the
  registration call (and in the header included, which leaves no trace at run time); the claim
  adds that each variant registers its own module initializer. The first half holds, see
  \<open>launchers_same_shape\<close>. The second half fails in \<^verbatim>\<open>logo_main.c\<close>: the name \<^verbatim>\<open>"logo"\<close> is
  registered together with \<^verbatim>\<open>PyInit_angelos\<close>, the initializer of the other variant, where
  the initializer of module \<^verbatim>\<open>logo\<close> is \<^verbatim>\<open>PyInit_logo\<close>. In \<^verbatim>\<open>angelos_main.c\<close> the pair is
  the variant's own.
\<close>

theorem logo_registers_the_angelos_initializer:
  "filter is_AppendInittab (calls (logo_main rt argc argv)) =
     [AppendInittab ''logo'' ''PyInit_angelos''] \<and>
   spec_own_initializer ''logo'' = ''PyInit_logo'' \<and>
   ''PyInit_angelos'' \<noteq> spec_own_initializer ''logo'' \<and>
   filter is_AppendInittab (calls (angelos_main rt argc argv)) =
     [AppendInittab ''angelos'' (spec_own_initializer ''angelos'')]"
  by (simp add: run_simps spec_own_initializer_def split: init_outcome.split)

subsection \<open>A failing start hook\<close>

text \<open>
  C2, as stated: if the start hook returns a failure, the launcher still calls the
  finalization and the exit status is not 0. The second half is false: with a start hook
  that is called and reports a failure, the angelos launcher exits with status 0.
\<close>

theorem start_failure_nonzero_status_counterexample:
  "initialization \<lparr>inittab_status = 0, initialization = Init_returns, start_value = Reported_failure\<rparr> = Init_returns \<and>
   start_value \<lparr>inittab_status = 0, initialization = Init_returns, start_value = Reported_failure\<rparr> = Reported_failure \<and>
   \<not> (positions is_Finalize
         (calls (angelos_main \<lparr>inittab_status = 0, initialization = Init_returns, start_value = Reported_failure\<rparr>
            1 [''angelos''])) \<noteq> [] \<and>
       exit_status (angelos_main \<lparr>inittab_status = 0, initialization = Init_returns, start_value = Reported_failure\<rparr>
            1 [''angelos'']) \<noteq> 0)"
  by (simp add: run_simps)

text \<open>
  C2, amended: if the start hook returns a failure, either launcher still calls the
  finalization, once and after the call of the start hook, and the exit status is 0, as it
  is on success. The start hook returns a failure in a run in which the initialization has
  returned, so that the hook is called, and the value it hands back is a failure.
\<close>

theorem start_failure_still_finalizes:
  "initialization rt = Init_returns \<Longrightarrow> start_value rt = Reported_failure \<Longrightarrow>
   list_all (\<lambda>r. length (positions is_Finalize (calls r)) = 1 \<and>
                 positions is_start (calls r) \<noteq> [] \<and>
                 all_before is_start is_Finalize (calls r) \<and>
                 exit_status r = 0)
     (both_launchers rt argc argv)"
  by (simp add: run_simps)

theorem start_failure_still_finalizes_witness:
  "initialization \<lparr>inittab_status = 0, initialization = Init_returns, start_value = Reported_failure\<rparr> = Init_returns \<and>
   start_value \<lparr>inittab_status = 0, initialization = Init_returns, start_value = Reported_failure\<rparr> = Reported_failure \<and>
   list_all (\<lambda>r. length (positions is_Finalize (calls r)) = 1 \<and>
                 positions is_start (calls r) \<noteq> [] \<and>
                 all_before is_start is_Finalize (calls r) \<and>
                 exit_status r = 0)
     (both_launchers \<lparr>inittab_status = 0, initialization = Init_returns, start_value = Reported_failure\<rparr>
        1 [''logo''])"
proof -
  have up: "initialization \<lparr>inittab_status = 0, initialization = Init_returns, start_value = Reported_failure\<rparr> = Init_returns"
    by simp
  have failure: "start_value \<lparr>inittab_status = 0, initialization = Init_returns, start_value = Reported_failure\<rparr> = Reported_failure"
    by simp
  from start_failure_still_finalizes [OF up failure, of 1 "[''logo'']"] up failure
  show ?thesis by blast
qed

subsection \<open>Order of registration and initialization\<close>

text \<open>
  C3. In every run of either launcher a registration call and an initialization call are
  made, and every registration call stands before every initialization call: the
  registration comes first and none comes after the initialization. This holds also of the
  runs that end inside the initialization.
\<close>

theorem registration_before_initialization:
  "list_all (\<lambda>r. positions is_AppendInittab (calls r) \<noteq> [] \<and>
                 positions is_Initialize (calls r) \<noteq> [] \<and>
                 all_before is_AppendInittab is_Initialize (calls r))
     (both_launchers rt argc argv)"
  by (simp add: run_simps split: init_outcome.split)

subsection \<open>Finalization after a successful start\<close>

text \<open>
  C4. In every run in which the start hook returns normally, the launcher makes exactly one
  finalization call, it stands after the call of the start hook, and no finalization call
  stands before an initialization call: every initialization call comes before every
  finalization call, and there is one. The start hook returns normally in a run in which the
  initialization has returned, so that the hook is called, and the value it hands back is
  the normal one.
\<close>

theorem one_finalization_after_successful_start:
  "initialization rt = Init_returns \<Longrightarrow> start_value rt = Returned_normally \<Longrightarrow>
   list_all (\<lambda>r. length (positions is_Finalize (calls r)) = 1 \<and>
                 positions is_start (calls r) \<noteq> [] \<and>
                 all_before is_start is_Finalize (calls r) \<and>
                 positions is_Initialize (calls r) \<noteq> [] \<and>
                 all_before is_Initialize is_Finalize (calls r))
     (both_launchers rt argc argv)"
  by (simp add: run_simps)

theorem one_finalization_after_successful_start_witness:
  "initialization \<lparr>inittab_status = 0, initialization = Init_returns, start_value = Returned_normally\<rparr> = Init_returns \<and>
   start_value \<lparr>inittab_status = 0, initialization = Init_returns, start_value = Returned_normally\<rparr> = Returned_normally \<and>
   list_all (\<lambda>r. length (positions is_Finalize (calls r)) = 1 \<and>
                 positions is_start (calls r) \<noteq> [] \<and>
                 all_before is_start is_Finalize (calls r) \<and>
                 positions is_Initialize (calls r) \<noteq> [] \<and>
                 all_before is_Initialize is_Finalize (calls r))
     (both_launchers \<lparr>inittab_status = 0, initialization = Init_returns, start_value = Returned_normally\<rparr>
        1 [''angelos''])"
proof -
  have up: "initialization \<lparr>inittab_status = 0, initialization = Init_returns, start_value = Returned_normally\<rparr> = Init_returns"
    by simp
  have normal: "start_value \<lparr>inittab_status = 0, initialization = Init_returns, start_value = Returned_normally\<rparr> = Returned_normally"
    by simp
  from one_finalization_after_successful_start [OF up normal, of 1 "[''angelos'']"] up normal
  show ?thesis by blast
qed

subsection \<open>The normal run\<close>

text \<open>
  C5. When the start hook returns normally (the initialization has returned, the hook is
  called and hands back the normal value), the angelos launcher registers the module
  \<^verbatim>\<open>"angelos"\<close> and the logo launcher the module \<^verbatim>\<open>"logo"\<close>; each then initializes the
  interpreter, calls the start hook once, finalizes, in this order and with no other call,
  and exits with status 0.
\<close>

theorem normal_run_of_each_launcher:
  "initialization rt = Init_returns \<Longrightarrow> start_value rt = Returned_normally \<Longrightarrow>
   (\<exists>init. angelos_main rt argc argv =
      (0, [AppendInittab ''angelos'' init, Initialize, Start, Finalize])) \<and>
   (\<exists>init. logo_main rt argc argv =
      (0, [AppendInittab ''logo'' init, Initialize, Start, Finalize]))"
  by (simp add: angelos_main_run logo_main_run)

theorem normal_run_of_each_launcher_witness:
  "initialization \<lparr>inittab_status = 0, initialization = Init_returns, start_value = Returned_normally\<rparr> = Init_returns \<and>
   start_value \<lparr>inittab_status = 0, initialization = Init_returns, start_value = Returned_normally\<rparr> = Returned_normally \<and>
   (\<exists>init. angelos_main \<lparr>inittab_status = 0, initialization = Init_returns, start_value = Returned_normally\<rparr>
        2 [''launcher'', ''-d''] =
      (0, [AppendInittab ''angelos'' init, Initialize, Start, Finalize])) \<and>
   (\<exists>init. logo_main \<lparr>inittab_status = 0, initialization = Init_returns, start_value = Returned_normally\<rparr>
        2 [''launcher'', ''-d''] =
      (0, [AppendInittab ''logo'' init, Initialize, Start, Finalize]))"
proof -
  have up: "initialization \<lparr>inittab_status = 0, initialization = Init_returns, start_value = Returned_normally\<rparr> = Init_returns"
    by simp
  have normal: "start_value \<lparr>inittab_status = 0, initialization = Init_returns, start_value = Returned_normally\<rparr> = Returned_normally"
    by simp
  from normal_run_of_each_launcher [OF up normal, of 2 "[''launcher'', ''-d'']"] up normal
  show ?thesis by blast
qed

subsection \<open>A failing registration\<close>

text \<open>
  C6, as stated: if the registration fails, the launcher aborts and the interpreter
  initialization is never called. This is false: with a registration call that returns -1,
  the angelos launcher calls the initialization all the same.
\<close>

theorem registration_failure_aborts_counterexample:
  "sint (inittab_status \<lparr>inittab_status = - 1, initialization = Init_returns, start_value = Returned_normally\<rparr>) = - 1 \<and>
   \<not> (positions is_Initialize
         (calls (angelos_main \<lparr>inittab_status = - 1, initialization = Init_returns, start_value = Returned_normally\<rparr>
            1 [''angelos''])) = [])"
  by (simp add: run_simps)

text \<open>
  C6, amended: if the registration fails, the launcher does not abort: the value returned
  by the registration call is dropped, and either launcher goes on to call the interpreter
  initialization, once and after the registration call, with the same calls and the same exit
  status as after a registration that succeeded.
\<close>

theorem registration_failure_is_ignored:
  "inittab_status rt \<noteq> 0 \<Longrightarrow>
   both_launchers rt argc argv = both_launchers (rt\<lparr>inittab_status := 0\<rparr>) argc argv \<and>
   list_all (\<lambda>r. length (positions is_Initialize (calls r)) = 1 \<and>
                 positions is_AppendInittab (calls r) \<noteq> [] \<and>
                 all_before is_AppendInittab is_Initialize (calls r))
     (both_launchers rt argc argv)"
  by (simp add: run_simps split: init_outcome.split)

theorem registration_failure_is_ignored_witness:
  "inittab_status \<lparr>inittab_status = - 1, initialization = Init_returns, start_value = Returned_normally\<rparr> \<noteq> 0 \<and>
   both_launchers \<lparr>inittab_status = - 1, initialization = Init_returns, start_value = Returned_normally\<rparr>
       1 [''logo''] =
     both_launchers (\<lparr>inittab_status = - 1, initialization = Init_returns, start_value = Returned_normally\<rparr>
       \<lparr>inittab_status := 0\<rparr>) 1 [''logo''] \<and>
   list_all (\<lambda>r. length (positions is_Initialize (calls r)) = 1 \<and>
                 positions is_AppendInittab (calls r) \<noteq> [] \<and>
                 all_before is_AppendInittab is_Initialize (calls r))
     (both_launchers \<lparr>inittab_status = - 1, initialization = Init_returns, start_value = Returned_normally\<rparr>
        1 [''logo''])"
proof -
  have failed: "inittab_status \<lparr>inittab_status = - 1, initialization = Init_returns, start_value = Returned_normally\<rparr> \<noteq> 0"
    by simp
  from registration_failure_is_ignored [OF failed, of 1 "[''logo'']"] failed
  show ?thesis by blast
qed

subsection \<open>The start hook is called once\<close>

text \<open>
  C7, as stated: in every run of either launcher the start hook is called exactly once,
  after the interpreter initialization. This is false of the runs in which the initialization
  fails: the process ends inside \<^verbatim>\<open>Py_Initialize\<close>, the statements after it are never reached,
  and the start hook is not called at all.
\<close>

theorem start_called_once_counterexample:
  "initialization \<lparr>inittab_status = 0, initialization = Init_fatal 1, start_value = Returned_normally\<rparr> = Init_fatal 1 \<and>
   positions is_start
     (calls (angelos_main \<lparr>inittab_status = 0, initialization = Init_fatal 1, start_value = Returned_normally\<rparr>
        1 [''angelos''])) = [] \<and>
   \<not> (length (positions is_start
         (calls (angelos_main \<lparr>inittab_status = 0, initialization = Init_fatal 1, start_value = Returned_normally\<rparr>
            1 [''angelos'']))) = 1)"
  by (simp add: run_simps)

text \<open>
  C7, amended: in every run of either launcher in which the interpreter initialization
  returns, the start hook is called exactly once, after the initialization call, and the
  launcher's next call, the finalization, comes after it. The calls of a run form one
  sequence, that of \<^verbatim>\<open>main\<close>: the launcher starts no thread, and the model has none.
\<close>

theorem start_called_once_when_initialization_returns:
  "initialization rt = Init_returns \<Longrightarrow>
   list_all (\<lambda>r. length (positions is_start (calls r)) = 1 \<and>
                 positions is_Initialize (calls r) \<noteq> [] \<and>
                 all_before is_Initialize is_start (calls r) \<and>
                 positions is_Finalize (calls r) \<noteq> [] \<and>
                 all_before is_start is_Finalize (calls r))
     (both_launchers rt argc argv)"
  by (simp add: run_simps)

theorem start_called_once_when_initialization_returns_witness:
  "initialization \<lparr>inittab_status = 0, initialization = Init_returns, start_value = Reported_failure\<rparr> = Init_returns \<and>
   list_all (\<lambda>r. length (positions is_start (calls r)) = 1 \<and>
                 positions is_Initialize (calls r) \<noteq> [] \<and>
                 all_before is_Initialize is_start (calls r) \<and>
                 positions is_Finalize (calls r) \<noteq> [] \<and>
                 all_before is_start is_Finalize (calls r))
     (both_launchers \<lparr>inittab_status = 0, initialization = Init_returns, start_value = Reported_failure\<rparr>
        3 [''angelos'', ''-c'', ''x''])"
proof -
  have up: "initialization \<lparr>inittab_status = 0, initialization = Init_returns, start_value = Reported_failure\<rparr> = Init_returns"
    by simp
  from start_called_once_when_initialization_returns [OF up, of 3 "[''angelos'', ''-c'', ''x'']"] up
  show ?thesis by blast
qed

subsection \<open>A single initialization\<close>

text \<open>
  C8. Either launcher calls the interpreter initialization at most once in a run, and no
  run has an initialization call while an earlier one still waits for its finalization.
  This holds also of the runs that end inside the initialization.
\<close>

theorem initialization_at_most_once:
  "list_all (\<lambda>r. length (positions is_Initialize (calls r)) \<le> 1 \<and> no_reinit False (calls r))
     (both_launchers rt argc argv)"
  by (simp add: run_simps split: init_outcome.split)

subsection \<open>Independence of the process arguments\<close>

text \<open>
  C9. Two invocations of \<^verbatim>\<open>main\<close> that differ only in \<^verbatim>\<open>argc\<close> and \<^verbatim>\<open>argv\<close> make the same
  calls in the same order and exit with the same status, for either launcher.
\<close>

theorem arguments_are_not_inspected:
  "angelos_main rt argc argv = angelos_main rt argc' argv' \<and>
   logo_main rt argc argv = logo_main rt argc' argv'"
  by (simp add: angelos_main_run logo_main_run)

subsection \<open>Independence of the start hook's result\<close>

text \<open>
  C10. Two runs that differ only in the value the start hook returns make the same calls
  and exit with the same status, for either launcher and whatever the type of that value.
  In the runs in which the start hook is reached, those in which the initialization returns,
  the finalization call is made after the call of the start hook, and the status is 0.
\<close>

theorem start_result_is_discarded:
  "both_launchers \<lparr>inittab_status = s, initialization = i, start_value = v\<rparr> argc argv =
     both_launchers \<lparr>inittab_status = s, initialization = i, start_value = w\<rparr> argc argv \<and>
   list_all (\<lambda>r. positions is_Finalize (calls r) \<noteq> [] \<and>
                 all_before is_start is_Finalize (calls r) \<and>
                 exit_status r = 0)
     (both_launchers \<lparr>inittab_status = s, initialization = Init_returns, start_value = v\<rparr>
        argc argv)"
  by (simp add: run_simps)

end
